theory Spec2Isabelle
  imports Main "HOL-Library.AList"
begin

section \<open>Strings and the regular expressions of backup-incremental.ts\<close>

text \<open>
  A JavaScript string is modelled by the list of the bytes of its UTF-8 encoding. Every
  delimiter the program looks for is ASCII, so the searches below find the same places
  in the byte sequence as the regular expressions find in the UTF-16 sequence.
\<close>

text \<open>\<open>p\<close> is a prefix of \<open>s\<close>: what a literal at the start of a pattern matches.\<close>

fun startsWith :: "string \<Rightarrow> string \<Rightarrow> bool" where
  "startsWith s [] = True"
| "startsWith [] (c # p) = False"
| "startsWith (x # s) (c # p) = (if x = c then startsWith s p else False)"

text \<open>\<open>s.includes(p)\<close>.\<close>

fun includesStr :: "string \<Rightarrow> string \<Rightarrow> bool" where
  "includesStr [] p = (p = [])"
| "includesStr (c # cs) p = (if startsWith (c # cs) p then True else includesStr cs p)"

text \<open>
  The program's capturing regular expressions all have the shape
  \<open>/OPEN([class]+)CLOSE/\<close> or \<open>/OPEN([class]*)CLOSE/\<close>, where the first character of
  \<open>CLOSE\<close> is outside the class. At a given start the greedy class run is the only
  candidate: a shorter run is followed by a character of the class, which cannot begin
  \<open>CLOSE\<close>. \<open>matchAt\<close> tries one start position, \<open>regexMatch\<close> the positions from left
  to right, as \<open>String.prototype.match\<close> does; the result is capture group 1.
\<close>

definition matchAt :: "string \<Rightarrow> (char \<Rightarrow> bool) \<Rightarrow> bool \<Rightarrow> string \<Rightarrow> string \<Rightarrow> string option" where
  "matchAt opn cls nonempty cl s =
     (if startsWith s opn then
        (let rest = drop (length opn) s;
             cap = takeWhile cls rest;
             after = dropWhile cls rest
         in if (nonempty \<longrightarrow> cap \<noteq> []) \<and> startsWith after cl then Some cap else None)
      else None)"

fun regexMatch :: "string \<Rightarrow> (char \<Rightarrow> bool) \<Rightarrow> bool \<Rightarrow> string \<Rightarrow> string \<Rightarrow> string option" where
  "regexMatch opn cls nonempty cl [] = matchAt opn cls nonempty cl []"
| "regexMatch opn cls nonempty cl (c # cs) =
     (case matchAt opn cls nonempty cl (c # cs) of
        Some cap \<Rightarrow> Some cap
      | None \<Rightarrow> regexMatch opn cls nonempty cl cs)"

text \<open>\<open>/realm="([^"]+)"/\<close> and \<open>/nonce="([^"]+)"/\<close> on a WWW-Authenticate header.\<close>

definition realmMatch :: "string \<Rightarrow> string option" where
  "realmMatch wwwAuth = regexMatch ''realm=\"'' (\<lambda>c. c \<noteq> CHR ''\"'') True ''\"'' wwwAuth"

definition nonceMatch :: "string \<Rightarrow> string option" where
  "nonceMatch wwwAuth = regexMatch ''nonce=\"'' (\<lambda>c. c \<noteq> CHR ''\"'') True ''\"'' wwwAuth"

text \<open>
  \<open>s.split(sep)\<close> for a non-empty separator: the pieces between the occurrences of
  \<open>sep\<close>, found from left to right without overlap.
\<close>

fun splitOn :: "string \<Rightarrow> string \<Rightarrow> string list" where
  "splitOn sep [] = [[]]"
| "splitOn sep (c # cs) =
     (if startsWith (c # cs) sep then [] # splitOn sep (drop (length sep - 1) cs)
      else (case splitOn sep cs of
              [] \<Rightarrow> [[c]]
            | piece # pieces \<Rightarrow> (c # piece) # pieces))"

text \<open>\<open>parseInt\<close> on a run of decimal digits (what \<open>(\d+)\<close> captures).\<close>

definition isDigit :: "char \<Rightarrow> bool" where
  "isDigit c = (48 \<le> (of_char c :: nat) \<and> (of_char c :: nat) \<le> 57)"

definition parseInt :: "string \<Rightarrow> nat" where
  "parseInt ds = foldl (\<lambda>n c. 10 * n + ((of_char c :: nat) - 48)) 0 ds"

text \<open>Decimal rendering of a number in a template string.\<close>

fun showNat :: "nat \<Rightarrow> string" where
  "showNat n = (if n < 10 then [char_of (48 + n)] else showNat (n div 10) @ [char_of (48 + n mod 10)])"

declare showNat.simps [simp del]

subsection \<open>decodeURIComponent\<close>

text \<open>
  The platform function, after the Decode operation of ECMA-262: a character other than
  \<open>%\<close> is copied; \<open>%\<close> must be followed by two hexadecimal digits, which give an octet;
  an octet below 0x80 is one character; otherwise its leading one bits give the length
  of a UTF-8 sequence (2 to 4), whose other octets must follow as escapes of the form
  10xxxxxx, and the sequence must be the UTF-8 encoding of a code point. Anything else
  throws URIError, which is \<open>None\<close> here. Strings being UTF-8 byte lists in this model,
  a decoded sequence is appended as its octets.
\<close>

definition hexDigit :: "char \<Rightarrow> nat option" where
  "hexDigit c =
     (let n = (of_char c :: nat) in
      if 48 \<le> n \<and> n \<le> 57 then Some (n - 48)
      else if 65 \<le> n \<and> n \<le> 70 then Some (n - 55)
      else if 97 \<le> n \<and> n \<le> 102 then Some (n - 87)
      else None)"

fun readEscape :: "string \<Rightarrow> (nat \<times> string) option" where
  "readEscape (p # h # l # rest) =
     (if p = CHR ''%'' then
        (case hexDigit h of
           None \<Rightarrow> None
         | Some a \<Rightarrow> (case hexDigit l of None \<Rightarrow> None | Some b \<Rightarrow> Some (16 * a + b, rest)))
      else None)"
| "readEscape _ = None"

fun readContinuation :: "nat \<Rightarrow> string \<Rightarrow> (nat list \<times> string) option" where
  "readContinuation 0 s = Some ([], s)"
| "readContinuation (Suc k) s =
     (case readEscape s of
        None \<Rightarrow> None
      | Some (b, rest) \<Rightarrow>
          if 128 \<le> b \<and> b < 192 then
            (case readContinuation k rest of
               None \<Rightarrow> None
             | Some (bs, rest') \<Rightarrow> Some (b # bs, rest'))
          else None)"

definition sequenceLength :: "nat \<Rightarrow> nat" where
  "sequenceLength b =
     (if b < 128 then 0 else if b < 192 then 1 else if b < 224 then 2
      else if b < 240 then 3 else if b < 248 then 4 else 5)"

fun validUtf8 :: "nat list \<Rightarrow> bool" where
  "validUtf8 [a, b] = (194 \<le> a \<and> a \<le> 223 \<and> 128 \<le> b \<and> b \<le> 191)"
| "validUtf8 [a, b, c] =
     (128 \<le> c \<and> c \<le> 191 \<and>
      ((a = 224 \<and> 160 \<le> b \<and> b \<le> 191) \<or>
       (225 \<le> a \<and> a \<le> 236 \<and> 128 \<le> b \<and> b \<le> 191) \<or>
       (a = 237 \<and> 128 \<le> b \<and> b \<le> 159) \<or>
       (238 \<le> a \<and> a \<le> 239 \<and> 128 \<le> b \<and> b \<le> 191)))"
| "validUtf8 [a, b, c, d] =
     (128 \<le> c \<and> c \<le> 191 \<and> 128 \<le> d \<and> d \<le> 191 \<and>
      ((a = 240 \<and> 144 \<le> b \<and> b \<le> 191) \<or>
       (241 \<le> a \<and> a \<le> 243 \<and> 128 \<le> b \<and> b \<le> 191) \<or>
       (a = 244 \<and> 128 \<le> b \<and> b \<le> 143)))"
| "validUtf8 _ = False"

lemma readEscape_length: "readEscape s = Some (b, rest) \<Longrightarrow> length s = length rest + 3"
  by (cases s rule: readEscape.cases) (auto split: if_splits option.splits)

lemma readContinuation_length:
  "readContinuation k s = Some (bs, rest) \<Longrightarrow> length s = length rest + 3 * k \<and> length bs = k"
proof (induction k arbitrary: s bs rest)
  case 0
  then show ?case by simp
next
  case (Suc k)
  then show ?case
    by (fastforce split: option.splits if_splits prod.splits dest: readEscape_length)
qed

function decodeURIComponent :: "string \<Rightarrow> string option" where
  "decodeURIComponent [] = Some []"
| "decodeURIComponent (c # cs) =
     (if c \<noteq> CHR ''%'' then map_option (\<lambda>t. c # t) (decodeURIComponent cs)
      else
        (case readEscape (c # cs) of
           None \<Rightarrow> None
         | Some (b, rest) \<Rightarrow>
             if b < 128 then map_option (\<lambda>t. char_of b # t) (decodeURIComponent rest)
             else if sequenceLength b = 1 \<or> sequenceLength b > 4 then None
             else
               (case readContinuation (sequenceLength b - 1) rest of
                  None \<Rightarrow> None
                | Some (bs, rest') \<Rightarrow>
                    if validUtf8 (b # bs)
                    then map_option (\<lambda>t. map char_of (b # bs) @ t) (decodeURIComponent rest')
                    else None)))"
  by pat_completeness auto
termination
proof (relation "measure length")
  show "wf (measure length)" by simp
next
  fix c :: char and cs
  show "(cs, c # cs) \<in> measure length" by simp
next
  fix c :: char and cs x2 b rest
  assume "readEscape (c # cs) = Some x2" "(b, rest) = x2"
  then have "length (c # cs) = length rest + 3"
    using readEscape_length by metis
  then show "(rest, c # cs) \<in> measure length" by simp
next
  fix c :: char and cs x2 b rest x2a bs rest'
  assume "readEscape (c # cs) = Some x2" "(b, rest) = x2"
    and "readContinuation (sequenceLength b - 1) rest = Some x2a" "(bs, rest') = x2a"
  then have "length (c # cs) = length rest + 3" "length rest' \<le> length rest"
    using readEscape_length readContinuation_length by (metis, metis le_add1)
  then show "(rest', c # cs) \<in> measure length" by simp
qed

subsection \<open>Paths\<close>

text \<open>\<open>href.replace(/^https:\/\/[^/]+\/resources\//, '')\<close>: the prefix is removed when it is there.\<close>

definition stripResourcesPrefix :: "string \<Rightarrow> string" where
  "stripResourcesPrefix href =
     (if startsWith href ''https://'' then
        (let rest = drop 8 href;
             host = takeWhile (\<lambda>c. c \<noteq> CHR ''/'') rest;
             after = dropWhile (\<lambda>c. c \<noteq> CHR ''/'') rest
         in if host \<noteq> [] \<and> startsWith after ''/resources/'' then drop 11 after else href)
      else href)"

text \<open>\<open>s.replace(/\/$/, '')\<close>: one slash at the end is removed.\<close>

definition stripTrailingSlash :: "string \<Rightarrow> string" where
  "stripTrailingSlash s = (if s \<noteq> [] \<and> last s = CHR ''/'' then butlast s else s)"

text \<open>
  \<open>path.basename\<close> (POSIX): the slashes at the end are ignored, and the result is what
  follows the last remaining slash.
\<close>

definition basename :: "string \<Rightarrow> string" where
  "basename s = rev (takeWhile (\<lambda>c. c \<noteq> CHR ''/'') (dropWhile (\<lambda>c. c = CHR ''/'') (rev s)))"

section \<open>Types\<close>

text \<open>
  A JavaScript number that holds a time value: an integral number of milliseconds, or
  \<open>NaN\<close> (what \<open>getTime()\<close> gives for a date string it cannot parse). \<open>JSON.stringify\<close>
  writes \<open>NaN\<close> as \<open>null\<close>, so a manifest read back from disk can hold \<open>Null\<close> in
  the place of a number; a relational operator converts \<open>null\<close> to 0.
\<close>

datatype jsnum = Num int | NaN | Null

fun toNumber :: "jsnum \<Rightarrow> int option" where
  "toNumber (Num i) = Some i"
| "toNumber NaN = None"
| "toNumber Null = Some 0"

text \<open>\<open>a > b\<close> on such values: false as soon as one side is \<open>NaN\<close>.\<close>

definition jsGreater :: "jsnum \<Rightarrow> jsnum \<Rightarrow> bool" where
  "jsGreater a b =
     (case toNumber a of
        None \<Rightarrow> False
      | Some x \<Rightarrow> (case toNumber b of None \<Rightarrow> False | Some y \<Rightarrow> x > y))"

text \<open>
  The interfaces \<open>FileInfo\<close> and \<open>ManifestEntry\<close> share four fields, declared once in
  \<open>FileMeta\<close>. A size is a natural number (\<open>parseInt\<close> of a digit run).
\<close>

record FileMeta =
  relativePath :: string
  size' :: nat
  lastModified :: string
  lastModifiedTime :: jsnum

record FileInfo = FileMeta +
  href :: string
  name :: string
  isFolder :: bool

record ManifestEntry = FileMeta +
  syncedAt :: string
  hash :: "string option"

text \<open>
  \<open>files\<close> is the object \<open>Record<string, ManifestEntry>\<close>: an association list in
  insertion order, read with \<open>map_of\<close> and written with \<open>AList.update\<close> (an existing key
  keeps its place, a new key goes to the end).
\<close>

record Manifest =
  lastFullSync :: string
  lastIncrementalSync :: string
  totalFiles :: nat
  totalSize :: nat
  files :: "(string \<times> ManifestEntry) list"

text \<open>\<open>SyncStats\<close>; \<open>duration\<close>, a real number of seconds that only the report prints, is left out.\<close>

record SyncStats =
  started :: string
  foldersScanned :: nat
  filesFound :: nat
  filesNew :: nat
  filesModified :: nat
  filesUnchanged :: nat
  filesDownloaded :: nat
  bytesDownloaded :: nat
  errors :: "string list"

section \<open>The listing parser\<close>

text \<open>
  \<open>parseMultistatus\<close>. \<open>getTime\<close> is \<open>s \<mapsto> new Date(s).getTime()\<close>. The result is
  \<open>None\<close> when \<open>decodeURIComponent\<close> throws.
\<close>

definition parseResponse ::
  "(string \<Rightarrow> jsnum) \<Rightarrow> string \<Rightarrow> string \<Rightarrow> FileInfo list option" where
  "parseResponse getTime currentPath response =
     (let hrefMatch = regexMatch ''<d:href>'' (\<lambda>c. c \<noteq> CHR ''<'') True ''</d:href>'' response;
          nameMatch = regexMatch ''<d:displayname>'' (\<lambda>c. c \<noteq> CHR ''<'') False ''</d:displayname>'' response;
          sizeMatch = regexMatch ''<d:getcontentlength>'' isDigit True ''</d:getcontentlength>'' response;
          isFolder' = includesStr response ''<d:collection'';
          lastModMatch = regexMatch ''<d:getlastmodified>'' (\<lambda>c. c \<noteq> CHR ''<'') True ''</d:getlastmodified>'' response
      in case hrefMatch of
           None \<Rightarrow> Some []
         | Some rawHref \<Rightarrow>
             (case decodeURIComponent rawHref of
                None \<Rightarrow> None
              | Some href' \<Rightarrow>
                  (let name' = (case nameMatch of Some n \<Rightarrow> n | None \<Rightarrow> basename href');
                       relativePath' = stripTrailingSlash (stripResourcesPrefix href')
                   in if relativePath' = currentPath \<or> (relativePath' = [] \<and> currentPath = []) then Some []
                      else
                        (let lastModified' = (case lastModMatch of Some m \<Rightarrow> m | None \<Rightarrow> []);
                             lastModifiedTime' = (if lastModified' \<noteq> [] then getTime lastModified' else Num 0)
                         in case decodeURIComponent relativePath' of
                              None \<Rightarrow> None
                            | Some decoded \<Rightarrow>
                                Some [\<lparr>relativePath = decoded,
                                       size' = (case sizeMatch of Some ds \<Rightarrow> parseInt ds | None \<Rightarrow> 0),
                                       lastModified = lastModified',
                                       lastModifiedTime = lastModifiedTime',
                                       href = href',
                                       name = name',
                                       isFolder = isFolder'\<rparr>]))))"

text \<open>The path that \<open>parseMultistatus\<close> compares with the folder being listed, for a decoded href.\<close>

definition comparedPath :: "string \<Rightarrow> string" where
  "comparedPath h = stripTrailingSlash (stripResourcesPrefix h)"

fun parseResponses :: "(string \<Rightarrow> jsnum) \<Rightarrow> string \<Rightarrow> string list \<Rightarrow> FileInfo list option" where
  "parseResponses getTime currentPath [] = Some []"
| "parseResponses getTime currentPath (response # responses) =
     (case parseResponse getTime currentPath response of
        None \<Rightarrow> None
      | Some item \<Rightarrow>
          (case parseResponses getTime currentPath responses of
             None \<Rightarrow> None
           | Some items \<Rightarrow> Some (item @ items)))"

definition parseMultistatus :: "(string \<Rightarrow> jsnum) \<Rightarrow> string \<Rightarrow> string \<Rightarrow> FileInfo list option" where
  "parseMultistatus getTime xml currentPath =
     parseResponses getTime currentPath (tl (splitOn ''<d:response>'' xml))"

section \<open>Configuration\<close>

text \<open>The \<open>CONFIG\<close> object: credentials, locations and the two mode flags.\<close>

record CONFIG =
  username :: string
  password :: string
  baseUrl :: string
  backupDir :: string
  manifestFile :: string
  logFile :: string
  notifyEmail :: string
  dryRun :: bool
  fullSync :: bool

section \<open>Digest authentication\<close>

text \<open>
  \<open>createDigestAuth\<close>. The MD5 hex digest of node's crypto module is the parameter
  \<open>md5\<close>; \<open>r36\<close> is the string \<open>Math.random().toString(36)\<close> of this call, of which
  \<open>substring(2, 10)\<close> is the client nonce.
\<close>

definition substring :: "nat \<Rightarrow> nat \<Rightarrow> string \<Rightarrow> string" where
  "substring i j s = take (j - i) (drop i s)"

definition createDigestAuth ::
  "CONFIG \<Rightarrow> (string \<Rightarrow> string) \<Rightarrow> string \<Rightarrow> string \<Rightarrow> string \<Rightarrow> string \<Rightarrow> string \<Rightarrow> string" where
  "createDigestAuth cfg md5 r36 realm nonce uri method =
     (let ha1 = md5 (username cfg @ '':'' @ realm @ '':'' @ password cfg);
          ha2 = md5 (method @ '':'' @ uri);
          nc = ''00000001'';
          cnonce = substring 2 10 r36;
          response = md5 (ha1 @ '':'' @ nonce @ '':'' @ nc @ '':'' @ cnonce @ '':auth:'' @ ha2)
      in ''Digest username=\"'' @ username cfg @ ''\", realm=\"'' @ realm @ ''\", nonce=\"'' @ nonce
         @ ''\", uri=\"'' @ uri @ ''\", qop=auth, nc='' @ nc @ '', cnonce=\"'' @ cnonce
         @ ''\", response=\"'' @ response @ ''\"'')"

subsection \<open>The header as the specification describes it\<close>

text \<open>
  RFC 2617 with \<open>qop=auth\<close>, in the specification's words: the two hashes, the response
  over six colon-separated parts, and a header made of named fields, quoted or bare,
  separated by a comma and a space.
\<close>

datatype field_value = Quoted string | Bare string

fun renderField :: "string \<times> field_value \<Rightarrow> string" where
  "renderField (k, Quoted v) = k @ ''=\"'' @ v @ ''\"''"
| "renderField (k, Bare v) = k @ ''='' @ v"

fun joinWith :: "string \<Rightarrow> string list \<Rightarrow> string" where
  "joinWith sep [] = []"
| "joinWith sep [x] = x"
| "joinWith sep (x # y # ys) = x @ sep @ joinWith sep (y # ys)"

definition colons :: "string list \<Rightarrow> string" where
  "colons parts = joinWith '':'' parts"

definition spec_HA1 :: "(string \<Rightarrow> string) \<Rightarrow> string \<Rightarrow> string \<Rightarrow> string \<Rightarrow> string" where
  "spec_HA1 md5 user realm pass = md5 (colons [user, realm, pass])"

definition spec_HA2 :: "(string \<Rightarrow> string) \<Rightarrow> string \<Rightarrow> string \<Rightarrow> string" where
  "spec_HA2 md5 method uri = md5 (colons [method, uri])"

definition spec_response ::
  "(string \<Rightarrow> string) \<Rightarrow> string \<Rightarrow> string \<Rightarrow> string \<Rightarrow> string \<Rightarrow> string \<Rightarrow> string" where
  "spec_response md5 ha1 nonce nc cnonce ha2 = md5 (colons [ha1, nonce, nc, cnonce, ''auth'', ha2])"

definition spec_digestHeader :: "(string \<times> field_value) list \<Rightarrow> string" where
  "spec_digestHeader fs = ''Digest '' @ joinWith '', '' (map renderField fs)"

section \<open>The platform and the world\<close>

text \<open>
  What the program takes from its platform and cannot be written down here is a
  parameter: the MD5 hex digest, date parsing, the \<open>URL\<close> constructor (\<open>None\<close> when it
  throws), \<open>path.join\<close> and \<open>path.dirname\<close>, the ISO rendering of the clock reading
  number \<open>t\<close>, and the base-36 rendering of the \<open>k\<close>-th random number. The texts built with
  real-number formatting (\<open>formatBytes\<close>, \<open>generateReport\<close>) are parameters as well: the
  model keeps where they are written, not their digits.
\<close>

record url =
  hostname :: string
  pathname :: string
  search :: string

record platform =
  md5hex :: "string \<Rightarrow> string"
  dateGetTime :: "string \<Rightarrow> jsnum"
  newURL :: "string \<Rightarrow> url option"
  pathJoin :: "string \<Rightarrow> string \<Rightarrow> string"
  pathDirname :: "string \<Rightarrow> string"
  toISOString :: "nat \<Rightarrow> string"
  random36 :: "nat \<Rightarrow> string"
  formatBytes :: "nat \<Rightarrow> string"
  reportText :: "CONFIG \<Rightarrow> SyncStats \<Rightarrow> Manifest \<Rightarrow> string"

record request =
  reqMethod :: string
  reqHostname :: string
  reqPath :: string
  reqAuthorization :: "string option"

record http_response =
  statusCode :: nat
  wwwAuthenticate :: "string option"
  location :: "string option"
  body :: string

datatype reply = Response http_response | NetworkError string

text \<open>
  A file holds text, or the JSON document of a manifest; appending to a file adds a
  chunk. A file is read back as a manifest exactly when it is one \<open>Json\<close> chunk.
\<close>

datatype chunk = Str string | Json Manifest

text \<open>
  The world of one run: the replies the network will deliver, in order (when none is
  left, a request is never answered); the requests sent so far; the files and
  directories on disk; the number of clock readings and of random numbers taken.
\<close>

record world =
  inbox :: "reply list"
  sent :: "request list"
  fsFiles :: "string \<Rightarrow> chunk list option"
  fsDirs :: "string set"
  clock :: nat
  randomCalls :: nat

definition httpsRequest :: "request \<Rightarrow> world \<Rightarrow> reply option \<times> world" where
  "httpsRequest req w =
     (case inbox w of
        [] \<Rightarrow> (None, w\<lparr>sent := sent w @ [req]\<rparr>)
      | r # rs \<Rightarrow> (Some r, w\<lparr>inbox := rs, sent := sent w @ [req]\<rparr>))"

definition existsSync :: "world \<Rightarrow> string \<Rightarrow> bool" where
  "existsSync w path = (fsFiles w path \<noteq> None \<or> path \<in> fsDirs w)"

definition mkdirSync :: "string \<Rightarrow> world \<Rightarrow> world" where
  "mkdirSync path w = w\<lparr>fsDirs := insert path (fsDirs w)\<rparr>"

definition writeFileSync :: "string \<Rightarrow> chunk list \<Rightarrow> world \<Rightarrow> world" where
  "writeFileSync path content w = w\<lparr>fsFiles := (fsFiles w)(path \<mapsto> content)\<rparr>"

definition appendFileSync :: "string \<Rightarrow> string \<Rightarrow> world \<Rightarrow> world" where
  "appendFileSync path text w =
     w\<lparr>fsFiles := (fsFiles w)(path \<mapsto> (case fsFiles w path of None \<Rightarrow> [] | Some old \<Rightarrow> old) @ [Str text])\<rparr>"

text \<open>\<open>log\<close>: one line, stamped with the time, appended to the log file.\<close>

definition log :: "CONFIG \<Rightarrow> platform \<Rightarrow> string \<Rightarrow> string \<Rightarrow> world \<Rightarrow> world" where
  "log cfg p message level w =
     (let timestamp = toISOString p (clock w);
          logLine = ''['' @ timestamp @ ''] ['' @ level @ ''] '' @ message
      in appendFileSync (logFile cfg) (logLine @ [CHR 0x0A]) (w\<lparr>clock := clock w + 1\<rparr>))"

text \<open>
  How a promise, and the code waiting for it, can end: resolved, rejected (the string is
  the rendering of the error), never settled, or cut short by an exception thrown in an
  event callback, which no handler catches.
\<close>

datatype 'a outcome = Resolved 'a | Rejected string | Pending | Uncaught string

section \<open>WebDAV operations\<close>

text \<open>\<open>propfind\<close>: the first request, and on a 401 with a usable challenge the second.\<close>

definition propfind :: "CONFIG \<Rightarrow> platform \<Rightarrow> string \<Rightarrow> world \<Rightarrow> FileInfo list outcome \<times> world" where
  "propfind cfg p folderPath w =
     (case newURL p (if folderPath \<noteq> [] then baseUrl cfg @ ''/'' @ folderPath @ ''/''
                     else baseUrl cfg @ ''/'') of
        None \<Rightarrow> (Rejected ''TypeError: Invalid URL'', w)
      | Some u \<Rightarrow>
          (let options = \<lparr>reqMethod = ''PROPFIND'', reqHostname = hostname u,
                          reqPath = pathname u, reqAuthorization = None\<rparr>
           in case httpsRequest options w of
                (None, w1) \<Rightarrow> (Pending, w1)
              | (Some (NetworkError e), w1) \<Rightarrow> (Rejected e, w1)
              | (Some (Response res), w1) \<Rightarrow>
                  if statusCode res = 401 then
                    (let wwwAuth = (case wwwAuthenticate res of Some h \<Rightarrow> h | None \<Rightarrow> [])
                     in case realmMatch wwwAuth of
                          None \<Rightarrow> (Pending, w1)
                        | Some realm \<Rightarrow>
                            (case nonceMatch wwwAuth of
                               None \<Rightarrow> (Pending, w1)
                             | Some nonce \<Rightarrow>
                                 (let auth = createDigestAuth cfg (md5hex p) (random36 p (randomCalls w1))
                                               realm nonce (pathname u) ''PROPFIND'';
                                      w2 = w1\<lparr>randomCalls := randomCalls w1 + 1\<rparr>
                                  in case httpsRequest (options\<lparr>reqAuthorization := Some auth\<rparr>) w2 of
                                       (None, w3) \<Rightarrow> (Pending, w3)
                                     | (Some (NetworkError e), w3) \<Rightarrow> (Uncaught e, w3)
                                     | (Some (Response authRes), w3) \<Rightarrow>
                                         if statusCode authRes = 207 then
                                           (case parseMultistatus (dateGetTime p) (body authRes) folderPath of
                                              None \<Rightarrow> (Uncaught ''URIError: URI malformed'', w3)
                                            | Some items \<Rightarrow> (Resolved items, w3))
                                         else (Rejected (''Error: HTTP '' @ showNat (statusCode authRes)), w3))))
                  else
                    (case parseMultistatus (dateGetTime p) (body res) folderPath of
                       None \<Rightarrow> (Uncaught ''URIError: URI malformed'', w1)
                     | Some items \<Rightarrow> (Resolved items, w1))))"

text \<open>
  A download stream writes the body to the destination; it fails (the stream's
  \<open>error\<close> event) when the destination is a directory.
\<close>

definition writeStream :: "string \<Rightarrow> string \<Rightarrow> world \<Rightarrow> bool outcome \<times> world" where
  "writeStream destPath content w =
     (if destPath \<in> fsDirs w then (Resolved False, w)
      else (Resolved True, writeFileSync destPath [Str content] w))"

text \<open>\<open>handleResponse\<close> inside \<open>downloadFile\<close>.\<close>

function handleResponse ::
  "CONFIG \<Rightarrow> platform \<Rightarrow> url \<Rightarrow> string \<Rightarrow> http_response \<Rightarrow> bool \<Rightarrow> world \<Rightarrow> bool outcome \<times> world" where
  "handleResponse cfg p u destPath res isAuth w =
     (if 300 \<le> statusCode res \<and> statusCode res < 400 \<and> location res \<noteq> None \<and> location res \<noteq> Some [] then
        (case newURL p (the (location res)) of
           None \<Rightarrow> (Uncaught ''TypeError: Invalid URL'', w)
         | Some redirectUrl \<Rightarrow>
             (case httpsRequest \<lparr>reqMethod = ''GET'', reqHostname = hostname redirectUrl,
                                 reqPath = pathname redirectUrl @ search redirectUrl,
                                 reqAuthorization = None\<rparr> w of
                (None, w1) \<Rightarrow> (Pending, w1)
              | (Some (NetworkError e), w1) \<Rightarrow> (Resolved False, w1)
              | (Some (Response redirectRes), w1) \<Rightarrow>
                  if statusCode redirectRes = 200 then writeStream destPath (body redirectRes) w1
                  else (Resolved False, w1)))
      else if statusCode res = 401 \<and> \<not> isAuth then
        (let wwwAuth = (case wwwAuthenticate res of Some h \<Rightarrow> h | None \<Rightarrow> [])
         in case realmMatch wwwAuth of
              None \<Rightarrow> (Resolved False, w)
            | Some realm \<Rightarrow>
                (case nonceMatch wwwAuth of
                   None \<Rightarrow> (Resolved False, w)
                 | Some nonce \<Rightarrow>
                     (let authHeader = createDigestAuth cfg (md5hex p) (random36 p (randomCalls w))
                                         realm nonce (pathname u) ''GET'';
                          w1 = w\<lparr>randomCalls := randomCalls w + 1\<rparr>
                      in case httpsRequest \<lparr>reqMethod = ''GET'', reqHostname = hostname u,
                                            reqPath = pathname u,
                                            reqAuthorization = Some authHeader\<rparr> w1 of
                           (None, w2) \<Rightarrow> (Pending, w2)
                         | (Some (NetworkError e), w2) \<Rightarrow> (Resolved False, w2)
                         | (Some (Response authRes), w2) \<Rightarrow>
                             handleResponse cfg p u destPath authRes True w2)))
      else if statusCode res = 200 then writeStream destPath (body res) w
      else (Resolved False, w))"
  by pat_completeness auto
termination
  by (relation "measure (\<lambda>(cfg, p, u, destPath, res, isAuth, w). if isAuth then 0 else 1)") auto

definition downloadFile :: "CONFIG \<Rightarrow> platform \<Rightarrow> string \<Rightarrow> string \<Rightarrow> world \<Rightarrow> bool outcome \<times> world" where
  "downloadFile cfg p fileUrl destPath w =
     (if dryRun cfg then (Resolved True, w)
      else
        (case newURL p fileUrl of
           None \<Rightarrow> (Rejected ''TypeError: Invalid URL'', w)
         | Some u \<Rightarrow>
             (let dir = pathDirname p destPath;
                  w1 = (if \<not> existsSync w dir then mkdirSync dir w else w)
              in case httpsRequest \<lparr>reqMethod = ''GET'', reqHostname = hostname u,
                                    reqPath = pathname u, reqAuthorization = None\<rparr> w1 of
                   (None, w2) \<Rightarrow> (Pending, w2)
                 | (Some (NetworkError e), w2) \<Rightarrow> (Resolved False, w2)
                 | (Some (Response res), w2) \<Rightarrow> handleResponse cfg p u destPath res False w2)))"

section \<open>Manifest management\<close>

text \<open>
  What \<open>JSON.parse\<close> gives back for what \<open>JSON.stringify\<close> wrote: every field as it
  was, except that a \<open>NaN\<close> time has become \<open>null\<close>.
\<close>

definition jsonNumber :: "jsnum \<Rightarrow> jsnum" where
  "jsonNumber x = (case x of NaN \<Rightarrow> Null | _ \<Rightarrow> x)"

definition jsonEntry :: "ManifestEntry \<Rightarrow> ManifestEntry" where
  "jsonEntry e = e\<lparr>lastModifiedTime := jsonNumber (lastModifiedTime e)\<rparr>"

definition jsonRoundTrip :: "Manifest \<Rightarrow> Manifest" where
  "jsonRoundTrip m = m\<lparr>files := map (\<lambda>(k, e). (k, jsonEntry e)) (files m)\<rparr>"

definition emptyManifest :: Manifest where
  "emptyManifest = \<lparr>lastFullSync = [], lastIncrementalSync = [], totalFiles = 0, totalSize = 0, files = []\<rparr>"

text \<open>
  \<open>loadManifest\<close>: a file that cannot be read as a manifest is logged and gives the
  empty manifest (the text of the caught error is shortened to its name).
\<close>

definition loadManifest :: "CONFIG \<Rightarrow> platform \<Rightarrow> world \<Rightarrow> Manifest \<times> world" where
  "loadManifest cfg p w =
     (if existsSync w (manifestFile cfg) then
        (case fsFiles w (manifestFile cfg) of
           Some [Json m] \<Rightarrow> (jsonRoundTrip m, w)
         | _ \<Rightarrow> (emptyManifest,
                 log cfg p (''Failed to load manifest, starting fresh: '' @ ''SyntaxError'') ''WARN'' w))
      else (emptyManifest, w))"

definition saveManifest :: "CONFIG \<Rightarrow> Manifest \<Rightarrow> world \<Rightarrow> world" where
  "saveManifest cfg m w = (if \<not> dryRun cfg then writeFileSync (manifestFile cfg) [Json m] w else w)"

section \<open>Sync logic\<close>

datatype syncStatus = New | Modified | Unchanged

definition needsSync :: "FileInfo \<Rightarrow> Manifest \<Rightarrow> syncStatus" where
  "needsSync file m =
     (case map_of (files m) (relativePath file) of
        None \<Rightarrow> New
      | Some existing \<Rightarrow>
          if jsGreater (lastModifiedTime file) (lastModifiedTime existing) \<or> size' file \<noteq> size' existing
          then Modified
          else Unchanged)"

text \<open>
  The objects a run mutates in place, threaded through the functions: the manifest,
  the statistics, the to-sync list and the world.
\<close>

record state =
  manifest :: Manifest
  stats :: SyncStats
  filesToSync :: "FileInfo list"
  world :: world

text \<open>
  How a call ends: it returned; it waits for a promise that never settles; an uncaught
  exception ended the process; it threw to its caller; or the model's fuel ran out.
\<close>

datatype ctl = Returned | Hang | Crashed string | Threw string | OutOfFuel

text \<open>\<open>log(error, 'ERROR'); stats.errors.push(error)\<close>.\<close>

definition recordError :: "CONFIG \<Rightarrow> platform \<Rightarrow> string \<Rightarrow> state \<Rightarrow> state" where
  "recordError cfg p error st =
     st\<lparr>world := log cfg p error ''ERROR'' (world st),
        stats := (stats st)\<lparr>errors := errors (stats st) @ [error]\<rparr>\<rparr>"

text \<open>\<open>CONFIG.fullSync ? 'new' : needsSync(item, manifest)\<close>.\<close>

definition classify :: "CONFIG \<Rightarrow> Manifest \<Rightarrow> FileInfo \<Rightarrow> syncStatus" where
  "classify cfg m item = (if fullSync cfg then New else needsSync item m)"

text \<open>The body of the loop of \<open>scanFolder\<close> for an item that is not a folder.\<close>

definition scanFile :: "CONFIG \<Rightarrow> FileInfo \<Rightarrow> state \<Rightarrow> state" where
  "scanFile cfg item st =
     (let s = (stats st)\<lparr>filesFound := filesFound (stats st) + 1\<rparr>;
          syncStatus = classify cfg (manifest st) item
      in case syncStatus of
           New \<Rightarrow> st\<lparr>stats := s\<lparr>filesNew := filesNew s + 1\<rparr>, filesToSync := filesToSync st @ [item]\<rparr>
         | Modified \<Rightarrow> st\<lparr>stats := s\<lparr>filesModified := filesModified s + 1\<rparr>, filesToSync := filesToSync st @ [item]\<rparr>
         | Unchanged \<Rightarrow> st\<lparr>stats := s\<lparr>filesUnchanged := filesUnchanged s + 1\<rparr>\<rparr>)"

text \<open>
  \<open>scanFolder\<close> and its loop over the items of a listing. The recursion follows the
  remote tree, so it carries fuel: one unit for each level of folders.
\<close>

fun scanFolder :: "nat \<Rightarrow> CONFIG \<Rightarrow> platform \<Rightarrow> string \<Rightarrow> state \<Rightarrow> ctl \<times> state"
  and scanItems :: "nat \<Rightarrow> CONFIG \<Rightarrow> platform \<Rightarrow> FileInfo list \<Rightarrow> state \<Rightarrow> ctl \<times> state" where
  "scanFolder 0 cfg p folderPath st = (OutOfFuel, st)"
| "scanFolder (Suc n) cfg p folderPath st =
     (let st1 = st\<lparr>stats := (stats st)\<lparr>foldersScanned := foldersScanned (stats st) + 1\<rparr>\<rparr>
      in case propfind cfg p folderPath (world st1) of
           (Resolved items, w) \<Rightarrow> scanItems n cfg p items (st1\<lparr>world := w\<rparr>)
         | (Rejected e, w) \<Rightarrow>
             (Returned, recordError cfg p (''Failed to scan folder '' @ folderPath @ '': '' @ e) (st1\<lparr>world := w\<rparr>))
         | (Pending, w) \<Rightarrow> (Hang, st1\<lparr>world := w\<rparr>)
         | (Uncaught e, w) \<Rightarrow> (Crashed e, st1\<lparr>world := w\<rparr>))"
| "scanItems n cfg p [] st = (Returned, st)"
| "scanItems n cfg p (item # items) st =
     (if isFolder item then
        (case scanFolder n cfg p (relativePath item) st of
           (Returned, st') \<Rightarrow> scanItems n cfg p items st'
         | (c, st') \<Rightarrow> (c, st'))
      else scanItems n cfg p items (scanFile cfg item st))"

text \<open>One iteration of the loop of \<open>syncFiles\<close>, and the loop.\<close>

definition syncFile :: "CONFIG \<Rightarrow> platform \<Rightarrow> FileInfo \<Rightarrow> state \<Rightarrow> ctl \<times> state" where
  "syncFile cfg p file st =
     (let destPath = pathJoin p (backupDir cfg) (relativePath file)
      in case downloadFile cfg p (href file) destPath (world st) of
           (Resolved True, w) \<Rightarrow>
             (Returned,
              st\<lparr>stats := (stats st)\<lparr>filesDownloaded := filesDownloaded (stats st) + 1,
                                      bytesDownloaded := bytesDownloaded (stats st) + size' file\<rparr>,
                 manifest := (manifest st)\<lparr>files :=
                   AList.update (relativePath file)
                     \<lparr>relativePath = relativePath file, size' = size' file,
                      lastModified = lastModified file, lastModifiedTime = lastModifiedTime file,
                      syncedAt = toISOString p (clock w), hash = None\<rparr>
                     (files (manifest st))\<rparr>,
                 world := w\<lparr>clock := clock w + 1\<rparr>\<rparr>)
         | (Resolved False, w) \<Rightarrow>
             (Returned, recordError cfg p (''Failed to download: '' @ relativePath file) (st\<lparr>world := w\<rparr>))
         | (Rejected e, w) \<Rightarrow> (Threw e, st\<lparr>world := w\<rparr>)
         | (Pending, w) \<Rightarrow> (Hang, st\<lparr>world := w\<rparr>)
         | (Uncaught e, w) \<Rightarrow> (Crashed e, st\<lparr>world := w\<rparr>))"

fun syncFiles :: "CONFIG \<Rightarrow> platform \<Rightarrow> FileInfo list \<Rightarrow> state \<Rightarrow> ctl \<times> state" where
  "syncFiles cfg p [] st = (Returned, st)"
| "syncFiles cfg p (file # rest) st =
     (case syncFile cfg p file st of
        (Returned, st') \<Rightarrow> syncFiles cfg p rest st'
      | (c, st') \<Rightarrow> (c, st'))"

text \<open>
  Two names for what the loop body of \<open>syncFiles\<close> does: the download it attempts for a
  file, and the manifest entry it writes for a file at time stamp \<open>t\<close>.
\<close>

definition download :: "CONFIG \<Rightarrow> platform \<Rightarrow> FileInfo \<Rightarrow> state \<Rightarrow> bool outcome \<times> world" where
  "download cfg p file st =
     downloadFile cfg p (href file) (pathJoin p (backupDir cfg) (relativePath file)) (world st)"


section \<open>Main\<close>

text \<open>
  \<open>main\<close>, in the order of its statements; what it prints to the console is left out.
  \<open>mainInit\<close> runs up to the start of the scan, \<open>mainSync\<close> is the sync step,
  \<open>updateManifest\<close> the block that recomputes the totals, stamps the run and saves,
  \<open>finishRun\<close> the report and the last log line. Each \<open>Date.now()\<close> and \<open>new Date()\<close>
  is one clock reading.
\<close>

definition initialStats :: "string \<Rightarrow> SyncStats" where
  "initialStats t =
     \<lparr>started = t, foldersScanned = 0, filesFound = 0, filesNew = 0, filesModified = 0,
      filesUnchanged = 0, filesDownloaded = 0, bytesDownloaded = 0, errors = []\<rparr>"

definition modeName :: "CONFIG \<Rightarrow> string" where
  "modeName cfg = (if dryRun cfg then ''Dry Run'' else if fullSync cfg then ''Full Sync'' else ''Incremental'')"

definition mainInit :: "CONFIG \<Rightarrow> platform \<Rightarrow> world \<Rightarrow> state" where
  "mainInit cfg p w =
     (let w1 = w\<lparr>clock := clock w + 1\<rparr>;
          t = toISOString p (clock w1);
          w2 = w1\<lparr>clock := clock w1 + 1\<rparr>;
          w3 = log cfg p ''=== Backup Started ==='' ''INFO'' w2;
          w4 = log cfg p (''Mode: '' @ modeName cfg) ''INFO'' w3;
          w5 = log cfg p (''Destination: '' @ backupDir cfg) ''INFO'' w4;
          w6 = (if \<not> existsSync w5 (backupDir cfg) then mkdirSync (backupDir cfg) w5 else w5);
          (m, w7) = loadManifest cfg p w6;
          w8 = log cfg p (''Manifest loaded: '' @ showNat (length (files m)) @ '' files tracked'') ''INFO'' w7;
          w9 = log cfg p ''Scanning for changes...'' ''INFO'' w8
      in \<lparr>manifest = m, stats = initialStats t, filesToSync = [], world = w9\<rparr>)"

definition mainSync :: "CONFIG \<Rightarrow> platform \<Rightarrow> state \<Rightarrow> ctl \<times> state" where
  "mainSync cfg p st =
     (let st1 = st\<lparr>world := log cfg p
                   (''Scan complete: '' @ showNat (filesNew (stats st)) @ '' new, ''
                    @ showNat (filesModified (stats st)) @ '' modified, ''
                    @ showNat (filesUnchanged (stats st)) @ '' unchanged'') ''INFO'' (world st)\<rparr>
      in if filesToSync st1 \<noteq> [] then
           syncFiles cfg p (filesToSync st1)
             (st1\<lparr>world := log cfg p (''Syncing '' @ showNat (length (filesToSync st1)) @ '' files...'')
                               ''INFO'' (world st1)\<rparr>)
         else (Returned, st1\<lparr>world := log cfg p ''No files to sync'' ''INFO'' (world st1)\<rparr>))"

definition updateManifest :: "CONFIG \<Rightarrow> platform \<Rightarrow> state \<Rightarrow> state" where
  "updateManifest cfg p st =
     (let m = manifest st;
          m1 = m\<lparr>totalFiles := length (files m),
                 totalSize := sum_list (map (\<lambda>(k, f). size' f) (files m))\<rparr>;
          now = toISOString p (clock (world st));
          m2 = (if fullSync cfg then m1\<lparr>lastFullSync := now\<rparr> else m1\<lparr>lastIncrementalSync := now\<rparr>);
          w1 = (world st)\<lparr>clock := clock (world st) + 1\<rparr>
      in st\<lparr>manifest := m2, world := saveManifest cfg m2 w1\<rparr>)"

definition reportFileName :: "platform \<Rightarrow> nat \<Rightarrow> string" where
  "reportFileName p t = ''./backup-report-'' @ takeWhile (\<lambda>c. c \<noteq> CHR ''T'') (toISOString p t) @ ''.md''"

definition finishRun :: "CONFIG \<Rightarrow> platform \<Rightarrow> state \<Rightarrow> state" where
  "finishRun cfg p st =
     (let w = world st;
          w1 = w\<lparr>clock := clock w + 1\<rparr>;
          report = reportText p cfg (stats st) (manifest st);
          reportFile = reportFileName p (clock w1);
          w2 = w1\<lparr>clock := clock w1 + 1\<rparr>;
          w3 = (if \<not> dryRun cfg then writeFileSync reportFile [Str report] w2 else w2);
          w4 = log cfg p (''=== Backup Complete: '' @ showNat (filesDownloaded (stats st)) @ '' files, ''
                          @ formatBytes p (bytesDownloaded (stats st)) @ '' ==='') ''INFO'' w3
      in st\<lparr>world := w4\<rparr>)"

text \<open>
  How the process ends: with an exit code (0 when the event loop drains after \<open>main\<close>
  returned), waiting for ever, or on an uncaught exception. \<open>mainCatch\<close> is the handler
  \<open>main().catch\<close>, extended to the endings that never reach it.
\<close>

datatype exit = Exit nat | Hung | Crash string | NoFuel

definition mainCatch :: "CONFIG \<Rightarrow> platform \<Rightarrow> ctl \<Rightarrow> state \<Rightarrow> exit \<times> state" where
  "mainCatch cfg p c st =
     (case c of
        Threw e \<Rightarrow> (Exit 1, st\<lparr>world := log cfg p (''Fatal error: '' @ e) ''ERROR'' (world st)\<rparr>)
      | Hang \<Rightarrow> (Hung, st)
      | Crashed e \<Rightarrow> (Crash e, st)
      | OutOfFuel \<Rightarrow> (NoFuel, st)
      | Returned \<Rightarrow> (Exit 0, st))"

definition main :: "nat \<Rightarrow> CONFIG \<Rightarrow> platform \<Rightarrow> world \<Rightarrow> exit \<times> state" where
  "main fuel cfg p w =
     (if password cfg = [] then
        (Exit 1, \<lparr>manifest = emptyManifest, stats = initialStats [], filesToSync = [], world = w\<rparr>)
      else
        (case scanFolder fuel cfg p [] (mainInit cfg p w) of
           (Returned, st1) \<Rightarrow>
             (case mainSync cfg p st1 of
                (Returned, st2) \<Rightarrow>
                  (let st3 = finishRun cfg p (updateManifest cfg p st2)
                   in (if errors (stats st3) \<noteq> [] then Exit 1 else Exit 0, st3))
              | (c, st2) \<Rightarrow> mainCatch cfg p c st2)
         | (c, st1) \<Rightarrow> mainCatch cfg p c st1))"

section \<open>The walker as the specification describes it\<close>

text \<open>
  The specification's Recursive Walker: depth first, every entry that is not a folder
  is yielded, a folder is entered before the walk goes on, and a folder whose listing
  fails is recorded and left. \<open>walk\<close> yields the files in the order of discovery; it
  touches the world as the scan does (the requests, and a log line for a failed
  listing), and looks at no manifest.
\<close>

fun walk :: "nat \<Rightarrow> CONFIG \<Rightarrow> platform \<Rightarrow> string \<Rightarrow> world \<Rightarrow> ctl \<times> FileInfo list \<times> world"
  and walkItems :: "nat \<Rightarrow> CONFIG \<Rightarrow> platform \<Rightarrow> FileInfo list \<Rightarrow> world \<Rightarrow> ctl \<times> FileInfo list \<times> world" where
  "walk 0 cfg p folderPath w = (OutOfFuel, [], w)"
| "walk (Suc n) cfg p folderPath w =
     (case propfind cfg p folderPath w of
        (Resolved items, w1) \<Rightarrow> walkItems n cfg p items w1
      | (Rejected e, w1) \<Rightarrow>
          (Returned, [], log cfg p (''Failed to scan folder '' @ folderPath @ '': '' @ e) ''ERROR'' w1)
      | (Pending, w1) \<Rightarrow> (Hang, [], w1)
      | (Uncaught e, w1) \<Rightarrow> (Crashed e, [], w1))"
| "walkItems n cfg p [] w = (Returned, [], w)"
| "walkItems n cfg p (item # items) w =
     (if isFolder item then
        (case walk n cfg p (relativePath item) w of
           (Returned, found, w1) \<Rightarrow>
             (case walkItems n cfg p items w1 of (c, later, w2) \<Rightarrow> (c, found @ later, w2))
         | (c, found, w1) \<Rightarrow> (c, found, w1))
      else (case walkItems n cfg p items w of (c, later, w1) \<Rightarrow> (c, item # later, w1)))"

text \<open>The files a run started in world \<open>w\<close> discovers.\<close>

definition discovered :: "nat \<Rightarrow> CONFIG \<Rightarrow> platform \<Rightarrow> world \<Rightarrow> FileInfo list" where
  "discovered fuel cfg p w = fst (snd (walk fuel cfg p [] (world (mainInit cfg p w))))"

section \<open>What a scan adds to a state\<close>


section \<open>What a run writes\<close>

text \<open>
  The content of the log file, and the relation between two worlds whose files differ
  at most in lines appended to the log file.
\<close>

definition logContent :: "CONFIG \<Rightarrow> world \<Rightarrow> chunk list" where
  "logContent cfg w = (case fsFiles w (logFile cfg) of None \<Rightarrow> [] | Some old \<Rightarrow> old)"

definition logOnly :: "CONFIG \<Rightarrow> world \<Rightarrow> world \<Rightarrow> bool" where
  "logOnly cfg w w' \<longleftrightarrow>
     (\<forall>path. path \<noteq> logFile cfg \<longrightarrow> fsFiles w' path = fsFiles w path) \<and>
     (\<exists>lines. logContent cfg w' = logContent cfg w @ lines)"

section \<open>A small remote tree\<close>

text \<open>
  The configuration of the deployment, a platform with simple stand-ins for the
  library functions, and a remote whose root holds one file, \<open>Policy.pdf\<close> of 1024 bytes.
\<close>

definition exampleConfig :: CONFIG where
  "exampleConfig =
     \<lparr>username = ''technology@sbnewcomers.org'', password = ''secret'',
      baseUrl = ''https://sbnewcomers.org/resources'', backupDir = ''./backups'',
      manifestFile = ''./backup-manifest.json'', logFile = ''./backup.log'',
      notifyEmail = [], dryRun = False, fullSync = False\<rparr>"

definition examplePlatform :: platform where
  "examplePlatform =
     \<lparr>md5hex = (\<lambda>s. ''md5('' @ s @ '')''),
      dateGetTime = (\<lambda>s. if s = ''Wed, 01 Jan 2025 00:00:00 GMT'' then Num 1735689600000 else NaN),
      newURL = (\<lambda>s. if startsWith s ''https://sbnewcomers.org/''
                       then Some \<lparr>hostname = ''sbnewcomers.org'', pathname = drop 23 s, search = []\<rparr>
                       else None),
      pathJoin = (\<lambda>a b. a @ ''/'' @ b),
      pathDirname = (\<lambda>s. rev (drop 1 (dropWhile (\<lambda>c. c \<noteq> CHR ''/'') (rev s)))),
      toISOString = (\<lambda>t. ''2026-01-03T02:00:00.'' @ showNat t @ ''Z''),
      random36 = (\<lambda>k. ''0.4fzyo82mvyr''),
      formatBytes = (\<lambda>n. showNat n @ '' B''),
      reportText = (\<lambda>cfg s m. ''# WA Files Backup Report'')\<rparr>"






definition emptyDisk :: "reply list \<Rightarrow> world" where
  "emptyDisk replies =
     \<lparr>inbox = replies, sent = [], fsFiles = (\<lambda>path. None), fsDirs = {}, clock = 0, randomCalls = 0\<rparr>"









text \<open>Two replies of a server in trouble: a page that is not found, and a challenge without a nonce.\<close>

definition notFound :: reply where
  "notFound =
     Response \<lparr>statusCode = 404, wwwAuthenticate = None, location = None,
               body = ''<html><body>Not Found</body></html>''\<rparr>"

definition challengeWithoutNonce :: reply where
  "challengeWithoutNonce =
     Response \<lparr>statusCode = 401,
               wwwAuthenticate = Some ''Digest realm=\"sbnewcomers.org\", qop=\"auth\"'',
               location = None, body = []\<rparr>"

section \<open>Properties\<close>

lemma jsGreater_irrefl [simp]: "\<not> jsGreater x x"
  by (cases x) (simp_all add: jsGreater_def)








lemma decode_no_percent: "CHR ''%'' \<notin> set s \<Longrightarrow> decodeURIComponent s = Some s"
  by (induction s) auto

lemma decode_length:
  "decodeURIComponent s = Some t \<Longrightarrow>
     length t \<le> length s \<and> (CHR ''%'' \<in> set s \<longrightarrow> length t < length s)"
proof (induction s arbitrary: t rule: decodeURIComponent.induct)
  case 1
  then show ?case by simp
next
  case (2 c cs)
  show ?case
  proof (cases "c = CHR ''%''")
    case False
    with 2 show ?thesis by auto
  next
    case True
    then obtain b rest where re: "readEscape (c # cs) = Some (b, rest)"
      using 2(4) by (auto split: option.splits)
    have len: "length (c # cs) = length rest + 3" using readEscape_length[OF re] .
    show ?thesis
    proof (cases "b < 128")
      case b: True
      then obtain t' where "decodeURIComponent rest = Some t'" "t = char_of b # t'"
        using 2(4) True re by auto
      with 2(2)[OF _ re refl b] True len show ?thesis by auto
    next
      case b: False
      then have sl: "\<not> (sequenceLength b = 1 \<or> sequenceLength b > 4)"
        using 2(4) True re by (auto split: if_splits)
      then obtain bs rest' where rc: "readContinuation (sequenceLength b - 1) rest = Some (bs, rest')"
        using 2(4) True re b by (auto split: option.splits if_splits)
      then have v: "validUtf8 (b # bs)" using 2(4) True re b sl by (auto split: if_splits)
      then obtain t' where t': "decodeURIComponent rest' = Some t'" "t = map char_of (b # bs) @ t'"
        using 2(4) True re b sl rc by auto
      have l2: "length rest = length rest' + 3 * (sequenceLength b - 1)" "length bs = sequenceLength b - 1"
        using readContinuation_length[OF rc] by auto
      have "length t' \<le> length rest'"
        using 2(3)[OF _ re refl b sl rc refl v t'(1)] True by simp
      with t' l2 len show ?thesis by auto
    qed
  qed
qed

lemma parseResponse_item:
  assumes "parseResponse getTime currentPath response = Some items" "item \<in> set items"
  shows "items = [item] \<and>
     (\<exists>raw. regexMatch ''<d:href>'' (\<lambda>c. c \<noteq> CHR ''<'') True ''</d:href>'' response = Some raw \<and>
        decodeURIComponent raw = Some (href item)) \<and>
     comparedPath (href item) \<noteq> currentPath \<and>
     decodeURIComponent (comparedPath (href item)) = Some (relativePath item)"
  using assms
  by (auto simp: parseResponse_def Let_def comparedPath_def split: option.splits if_splits)

lemma parseResponses_item:
  "parseResponses getTime currentPath responses = Some items \<Longrightarrow> item \<in> set items \<Longrightarrow>
     \<exists>response \<in> set responses. parseResponse getTime currentPath response = Some [item]"
proof (induction responses arbitrary: items)
  case Nil
  then show ?case by simp
next
  case (Cons r rs)
  from Cons.prems(1) obtain a b where ab: "parseResponse getTime currentPath r = Some a"
    "parseResponses getTime currentPath rs = Some b" "items = a @ b"
    by (auto split: option.splits)
  show ?case
  proof (cases "item \<in> set a")
    case True
    with parseResponse_item[OF ab(1) True] ab(1) show ?thesis by auto
  next
    case False
    with Cons.prems(2) ab(3) have "item \<in> set b" by simp
    from Cons.IH[OF ab(2) this] show ?thesis by auto
  qed
qed

text \<open>
  Claim C3. The claim is that for every multi-status body and every folder path the
  parser returns no entry whose \<open>relativePath\<close> equals the path of the folder just
  listed. The code compares the path decoded once and stores the path decoded twice, so
  the claim fails on it: while the folder \<open>a b\<close> is listed, a response whose href ends
  in \<open>a%2520b/\<close> passes the comparison as \<open>a%20b\<close> and is returned with the
  \<open>relativePath\<close> \<open>a b\<close>, the folder being listed.
\<close>

theorem listed_folder_returned:
  "parseMultistatus getTime
     ''<d:response><d:href>https://sbnewcomers.org/resources/a%2520b/</d:href><d:collection/>'' ''a b''
   = Some [\<lparr>relativePath = ''a b'', size' = 0, lastModified = [], lastModifiedTime = Num 0,
            href = ''https://sbnewcomers.org/resources/a%20b/'', name = ''a%20b'', isFolder = True\<rparr>]"
  by code_simp
text \<open>
  Claim C10, amended. For every entry the parser returns, the href of the entry is the
  server's href decoded once, the path compared with the folder being listed is that
  href without the resource prefix and the final slash, and the stored \<open>relativePath\<close>
  is this compared path decoded once more. Hence the stored path differs from the
  compared path whenever the compared path still contains a percent escape, and equals
  it when it contains none. (The claim spoke of an escape anywhere in the once-decoded
  href; an escape in the prefix that is stripped changes nothing.)
\<close>

theorem parseMultistatus_double_decoding:
  "parseMultistatus getTime xml currentPath = Some items \<and> item \<in> set items \<longrightarrow>
     (\<exists>response raw. response \<in> set (tl (splitOn ''<d:response>'' xml)) \<and>
        regexMatch ''<d:href>'' (\<lambda>c. c \<noteq> CHR ''<'') True ''</d:href>'' response = Some raw \<and>
        decodeURIComponent raw = Some (href item)) \<and>
     comparedPath (href item) \<noteq> currentPath \<and>
     decodeURIComponent (comparedPath (href item)) = Some (relativePath item) \<and>
     (CHR ''%'' \<in> set (comparedPath (href item)) \<longrightarrow> relativePath item \<noteq> comparedPath (href item)) \<and>
     (CHR ''%'' \<notin> set (comparedPath (href item)) \<longrightarrow> relativePath item = comparedPath (href item))"
proof (intro impI, elim conjE)
  assume p: "parseMultistatus getTime xml currentPath = Some items" and i: "item \<in> set items"
  from parseResponses_item[OF p[unfolded parseMultistatus_def] i]
  obtain response where r: "response \<in> set (tl (splitOn ''<d:response>'' xml))"
    "parseResponse getTime currentPath response = Some [item]" by blast
  from parseResponse_item[OF r(2)] have
    a: "\<exists>raw. regexMatch ''<d:href>'' (\<lambda>c. c \<noteq> CHR ''<'') True ''</d:href>'' response = Some raw \<and>
        decodeURIComponent raw = Some (href item)"
    and b: "comparedPath (href item) \<noteq> currentPath"
    and c: "decodeURIComponent (comparedPath (href item)) = Some (relativePath item)"
    by auto
  from decode_length[OF c] have d: "CHR ''%'' \<in> set (comparedPath (href item)) \<longrightarrow> relativePath item \<noteq> comparedPath (href item)"
    by auto
  have e: "CHR ''%'' \<notin> set (comparedPath (href item)) \<longrightarrow> relativePath item = comparedPath (href item)"
    using c decode_no_percent by auto
  from a b c d e r(1) show "(\<exists>response raw. response \<in> set (tl (splitOn ''<d:response>'' xml)) \<and>
        regexMatch ''<d:href>'' (\<lambda>c. c \<noteq> CHR ''<'') True ''</d:href>'' response = Some raw \<and>
        decodeURIComponent raw = Some (href item)) \<and>
     comparedPath (href item) \<noteq> currentPath \<and>
     decodeURIComponent (comparedPath (href item)) = Some (relativePath item) \<and>
     (CHR ''%'' \<in> set (comparedPath (href item)) \<longrightarrow> relativePath item \<noteq> comparedPath (href item)) \<and>
     (CHR ''%'' \<notin> set (comparedPath (href item)) \<longrightarrow> relativePath item = comparedPath (href item))"
    by blast
qed

theorem parseMultistatus_double_decoding_witness:
  "parseMultistatus (\<lambda>s. NaN)
     ''<d:response><d:href>https://sbnewcomers.org/resources/a%2520b/</d:href><d:collection/>'' []
   = Some [\<lparr>relativePath = ''a b'', size' = 0, lastModified = [], lastModifiedTime = Num 0,
            href = ''https://sbnewcomers.org/resources/a%20b/'', name = ''a%20b'', isFolder = True\<rparr>] \<and>
   comparedPath ''https://sbnewcomers.org/resources/a%20b/'' = ''a%20b'' \<and>
   ''a b'' \<noteq> comparedPath ''https://sbnewcomers.org/resources/a%20b/''"
proof -
  let ?item = "\<lparr>relativePath = ''a b'', size' = 0, lastModified = [], lastModifiedTime = Num 0,
            href = ''https://sbnewcomers.org/resources/a%20b/'', name = ''a%20b'', isFolder = True\<rparr>"
  have p: "parseMultistatus (\<lambda>s. NaN)
     ''<d:response><d:href>https://sbnewcomers.org/resources/a%2520b/</d:href><d:collection/>'' []
     = Some [?item]"
    by code_simp
  have c: "comparedPath ''https://sbnewcomers.org/resources/a%20b/'' = ''a%20b''"
    by code_simp
  have "relativePath ?item \<noteq> comparedPath (href ?item)"
    using parseMultistatus_double_decoding[of "\<lambda>s. NaN"
        "''<d:response><d:href>https://sbnewcomers.org/resources/a%2520b/</d:href><d:collection/>''"
        "[]" "[?item]" ?item] p c
    by simp
  with p c show ?thesis by simp
qed

text \<open>
  The claim as it was stated fails where the escape left by the first decoding stands in
  the host name: the once-decoded href contains \<open>%41\<close>, and the stored path is the
  compared path.
\<close>

theorem double_decoding_counterexample:
  "decodeURIComponent ''https://h%2541/resources/x'' = Some ''https://h%41/resources/x'' \<and>
   CHR ''%'' \<in> set ''https://h%41/resources/x'' \<and>
   comparedPath ''https://h%41/resources/x'' = ''x'' \<and>
   map relativePath (the (parseMultistatus (\<lambda>s. NaN) ''<d:response><d:href>https://h%2541/resources/x</d:href>'' [])) = [''x'']"
  by code_simp

lemma main_completed:
  assumes "password cfg \<noteq> []"
    and "scanFolder fuel cfg p [] (mainInit cfg p w) = (Returned, st1)"
    and "mainSync cfg p st1 = (Returned, st2)"
  shows "main fuel cfg p w =
     (if errors (stats (finishRun cfg p (updateManifest cfg p st2))) \<noteq> [] then Exit 1 else Exit 0,
      finishRun cfg p (updateManifest cfg p st2))"
  using assms by (simp add: main_def Let_def)

text \<open>
  Claim C4. The claim is that a request answered by a 401 whose challenge has no
  parsable realm or nonce fails at once with an authentication error, without a retry,
  and that on the root listing the run then aborts with an authentication failure. For
  a download the code does resolve to failure at once; for a listing it does not:
  \<open>propfind\<close> has no branch for this case, so its promise never settles. On the root
  listing the run sends its one request and then waits for ever: no error is recorded,
  nothing is reported, and the process never exits with a failure.
\<close>

theorem root_challenge_without_nonce_hangs:
  "fst (propfind exampleConfig examplePlatform [] (emptyDisk [challengeWithoutNonce])) = Pending \<and>
   fst (main 1 exampleConfig examplePlatform (emptyDisk [challengeWithoutNonce])) = Hung \<and>
   errors (stats (snd (main 1 exampleConfig examplePlatform (emptyDisk [challengeWithoutNonce])))) = [] \<and>
   length (sent (world (snd (main 1 exampleConfig examplePlatform (emptyDisk [challengeWithoutNonce]))))) = 1"
proof -
  have "fst (propfind exampleConfig examplePlatform [] (emptyDisk [challengeWithoutNonce])) = Pending"
    by code_simp
  moreover have "fst (main 1 exampleConfig examplePlatform (emptyDisk [challengeWithoutNonce])) = Hung"
    by code_simp
  moreover have "errors (stats (snd (main 1 exampleConfig examplePlatform (emptyDisk [challengeWithoutNonce])))) = []"
    by code_simp
  moreover have "length (sent (world (snd (main 1 exampleConfig examplePlatform (emptyDisk [challengeWithoutNonce]))))) = 1"
    by code_simp
  ultimately show ?thesis by simp
qed

text \<open>
  Claim C7. The claim is that a listing request yields its entries on a 207 and an
  error carrying the status code on any other final status. The code checks for 207
  only on the authenticated retry; a first response that is not a 401 is parsed
  whatever its status. A 404 on the root listing resolves to the empty list: the scan
  returns, no error is recorded and the run exits with code 0.
\<close>

theorem listing_404_resolves_empty:
  "fst (propfind exampleConfig examplePlatform [] (emptyDisk [notFound])) = Resolved [] \<and>
   fst (main 1 exampleConfig examplePlatform (emptyDisk [notFound])) = Exit 0 \<and>
   errors (stats (snd (main 1 exampleConfig examplePlatform (emptyDisk [notFound])))) = []"
proof -
  let ?s1 = "snd (scanFolder 1 exampleConfig examplePlatform [] (mainInit exampleConfig examplePlatform (emptyDisk [notFound])))"
  let ?s2 = "snd (mainSync exampleConfig examplePlatform ?s1)"
  have a: "fst (propfind exampleConfig examplePlatform [] (emptyDisk [notFound])) = Resolved []"
    by code_simp
  have "fst (scanFolder 1 exampleConfig examplePlatform [] (mainInit exampleConfig examplePlatform (emptyDisk [notFound]))) = Returned"
    by code_simp
  then have b: "scanFolder 1 exampleConfig examplePlatform [] (mainInit exampleConfig examplePlatform (emptyDisk [notFound])) = (Returned, ?s1)"
    by (metis prod.collapse)
  have "fst (mainSync exampleConfig examplePlatform ?s1) = Returned"
    by code_simp
  then have c: "mainSync exampleConfig examplePlatform ?s1 = (Returned, ?s2)"
    by (metis prod.collapse)
  have d: "errors (stats (finishRun exampleConfig examplePlatform (updateManifest exampleConfig examplePlatform ?s2))) = []"
    by code_simp
  have e: "password exampleConfig \<noteq> []" by (simp add: exampleConfig_def)
  from main_completed[OF e b c] a d show ?thesis by simp
qed

lemma recordError_simps [simp]:
  "manifest (recordError cfg p e st) = manifest st"
  "filesToSync (recordError cfg p e st) = filesToSync st"
  "errors (stats (recordError cfg p e st)) = errors (stats st) @ [e]"
  "filesDownloaded (stats (recordError cfg p e st)) = filesDownloaded (stats st)"
  "bytesDownloaded (stats (recordError cfg p e st)) = bytesDownloaded (stats st)"
  "filesFound (stats (recordError cfg p e st)) = filesFound (stats st)"
  "filesNew (stats (recordError cfg p e st)) = filesNew (stats st)"
  "filesModified (stats (recordError cfg p e st)) = filesModified (stats st)"
  "filesUnchanged (stats (recordError cfg p e st)) = filesUnchanged (stats st)"
  "world (recordError cfg p e st) = log cfg p e ''ERROR'' (world st)"
  by (simp_all add: recordError_def)









lemma logOnly_refl [simp]: "logOnly cfg w w"
  by (simp add: logOnly_def)



lemma log_simps [simp]:
  "fsFiles (log cfg p message level w) path =
     (if path = logFile cfg
      then Some ((case fsFiles w path of None \<Rightarrow> [] | Some old \<Rightarrow> old)
                 @ [Str (''['' @ toISOString p (clock w) @ ''] ['' @ level @ ''] '' @ message @ [CHR 0x0A])])
      else fsFiles w path)"
  "fsDirs (log cfg p message level w) = fsDirs w"
  "inbox (log cfg p message level w) = inbox w"
  "sent (log cfg p message level w) = sent w"
  "clock (log cfg p message level w) = clock w + 1"
  "randomCalls (log cfg p message level w) = randomCalls w"
  by (simp_all add: log_def appendFileSync_def Let_def)






















lemma mainCatch_Exit0: "fst (mainCatch cfg p c st) = Exit 0 \<longleftrightarrow> c = Returned"
  by (simp add: mainCatch_def split: ctl.splits)

lemma finishRun_simps [simp]:
  "manifest (finishRun cfg p st) = manifest st"
  "stats (finishRun cfg p st) = stats st"
  "filesToSync (finishRun cfg p st) = filesToSync st"
  by (simp_all add: finishRun_def Let_def)

lemma updateManifest_simps [simp]:
  "files (manifest (updateManifest cfg p st)) = files (manifest st)"
  "stats (updateManifest cfg p st) = stats st"
  "filesToSync (updateManifest cfg p st) = filesToSync st"
  by (simp_all add: updateManifest_def Let_def)





lemma mainInit_filesToSync [simp]: "filesToSync (mainInit cfg p w) = []"
  by (simp add: mainInit_def Let_def case_prod_beta)

lemma mainInit_stats [simp]:
  "filesDownloaded (stats (mainInit cfg p w)) = 0" "filesNew (stats (mainInit cfg p w)) = 0"
  "filesModified (stats (mainInit cfg p w)) = 0" "filesUnchanged (stats (mainInit cfg p w)) = 0"
  "filesFound (stats (mainInit cfg p w)) = 0" "errors (stats (mainInit cfg p w)) = []"
  by (simp_all add: mainInit_def Let_def case_prod_beta initialStats_def)







text \<open>
  Claim C9. For every realm, nonce, uri and method, the header built by
  \<open>createDigestAuth\<close> is the Digest header with the fields username, realm, nonce, uri,
  qop=auth, nc, cnonce and response, in which nc is the fixed string 00000001, cnonce is
  the client nonce generated in this call (characters 2 to 9 of the base-36 rendering of
  the random number), and response is MD5(HA1:nonce:nc:cnonce:auth:HA2) with
  HA1 = MD5(username:realm:password) and HA2 = MD5(method:uri).
\<close>

theorem createDigestAuth_header:
  "createDigestAuth cfg md5 r36 realm nonce uri method =
     spec_digestHeader
       [(''username'', Quoted (username cfg)),
        (''realm'', Quoted realm),
        (''nonce'', Quoted nonce),
        (''uri'', Quoted uri),
        (''qop'', Bare ''auth''),
        (''nc'', Bare ''00000001''),
        (''cnonce'', Quoted (take 8 (drop 2 r36))),
        (''response'', Quoted
           (spec_response md5 (spec_HA1 md5 (username cfg) realm (password cfg)) nonce
              ''00000001'' (take 8 (drop 2 r36)) (spec_HA2 md5 method uri)))]"
  by (simp add: createDigestAuth_def spec_digestHeader_def spec_response_def spec_HA1_def
      spec_HA2_def colons_def substring_def Let_def)

end
